theory Spec2Isabelle
  imports Complex_Main "HOL-Library.AList"
begin

section \<open>JavaScript values\<close>

text \<open>
  A JavaScript number is NaN, an infinity or a finite double. Finite doubles are kept
  as the real numbers they denote: \<open>Math.max\<close>, truthiness and strict comparison are
  exact on doubles, and \<open>-0\<close> is identified with \<open>0\<close> (both are falsy, and both
  print as \<open>0\<close>).
\<close>

datatype js_num = NaN | NegInf | Fin real | PosInf

text \<open>
  The values a cross-document message can carry that the widget inspects: primitives
  and plain objects (property lists). Arrays, dates, BigInts and other exotic objects
  are not modelled.
\<close>

datatype js_value =
    JUndefined
  | JNull
  | JBool bool
  | JNum js_num
  | JStr string
  | JObj "(string \<times> js_value) list"

datatype js_error = TypeError

section \<open>The host environment\<close>

text \<open>
  The state of a \<open>URL\<close> object. The query is kept as the list of decoded name-value
  pairs that \<open>url.searchParams\<close> exposes; once \<open>searchParams.set\<close> has been called
  the serialised query is a function of this list alone. \<open>url.toString()\<close> is
  represented by the record it serialises.
\<close>

record url =
  url_scheme :: string
  url_username :: string
  url_password :: string
  url_host :: string
  url_port :: "nat option"
  url_path :: string
  url_query :: "(string \<times> string) list"
  url_fragment :: "string option"

text \<open>
  What the widget takes from the platform: \<open>window.location.hostname\<close>, the
  \<open>URL\<close> constructor (\<open>None\<close> when it throws a \<open>TypeError\<close>) and the conversion
  of a string to a number that \<open>Math.max\<close> applies to a string argument.
\<close>

record host_env =
  location_hostname :: string
  URL_parse :: "string \<Rightarrow> url option"
  StringToNumber :: "string \<Rightarrow> js_num"

section \<open>Built-ins used by the widget\<close>

fun ToBoolean :: "js_value \<Rightarrow> bool" where
  "ToBoolean JUndefined = False"
| "ToBoolean JNull = False"
| "ToBoolean (JBool b) = b"
| "ToBoolean (JNum n) = (n \<noteq> NaN \<and> n \<noteq> Fin 0)"
| "ToBoolean (JStr s) = (s \<noteq> [])"
| "ToBoolean (JObj kvs) = True"

text \<open>A plain object converts to the string \<open>[object Object]\<close> and so to NaN.\<close>

fun ToNumber :: "host_env \<Rightarrow> js_value \<Rightarrow> js_num" where
  "ToNumber env JUndefined = NaN"
| "ToNumber env JNull = Fin 0"
| "ToNumber env (JBool b) = (if b then Fin 1 else Fin 0)"
| "ToNumber env (JNum n) = n"
| "ToNumber env (JStr s) = StringToNumber env s"
| "ToNumber env (JObj kvs) = NaN"

fun Math_max :: "js_num \<Rightarrow> js_num \<Rightarrow> js_num" where
  "Math_max NaN b = NaN"
| "Math_max a NaN = NaN"
| "Math_max PosInf b = PosInf"
| "Math_max a PosInf = PosInf"
| "Math_max NegInf b = b"
| "Math_max a NegInf = a"
| "Math_max (Fin x) (Fin y) = Fin (max x y)"

text \<open>
  Property read \<open>v.key\<close> on a value that is neither \<open>undefined\<close> nor \<open>null\<close>:
  a plain object yields the property or \<open>undefined\<close>; a primitive has none of the
  properties the widget reads.
\<close>

fun getProp :: "js_value \<Rightarrow> string \<Rightarrow> js_value" where
  "getProp (JObj kvs) key = (case map_of kvs key of None \<Rightarrow> JUndefined | Some v \<Rightarrow> v)"
| "getProp v key = JUndefined"

text \<open>Optional chaining \<open>v?.key\<close>.\<close>

fun getPropOpt :: "js_value \<Rightarrow> string \<Rightarrow> js_value" where
  "getPropOpt JUndefined key = JUndefined"
| "getPropOpt JNull key = JUndefined"
| "getPropOpt v key = getProp v key"

fun startsWith :: "string \<Rightarrow> string \<Rightarrow> bool" where
  "startsWith s [] = True"
| "startsWith [] (p # ps) = False"
| "startsWith (c # cs) (p # ps) = (c = p \<and> startsWith cs ps)"

text \<open>\<open>String.prototype.includes\<close>: the pattern occurs as a contiguous substring.\<close>

fun str_includes :: "string \<Rightarrow> string \<Rightarrow> bool" where
  "str_includes [] pat = (pat = [])"
| "str_includes (c # cs) pat = (startsWith (c # cs) pat \<or> str_includes cs pat)"

text \<open>
  \<open>parseInt(s, 10)\<close>: leading white space is skipped, an optional sign is read, then
  the longest run of decimal digits; no digit gives NaN. White space is the ASCII part
  of the JavaScript set, and the result is the exact integer (a double rounds it beyond
  \<open>2^53\<close>).
\<close>

definition is_white_space :: "char \<Rightarrow> bool" where
  "is_white_space c = (c \<in> set [CHR 0x09, CHR 0x0A, CHR 0x0B, CHR 0x0C, CHR 0x0D, CHR '' ''])"

definition is_digit :: "char \<Rightarrow> bool" where
  "is_digit c = (c \<in> set ''0123456789'')"

definition digit_value :: "char \<Rightarrow> nat" where
  "digit_value c = of_char c - 48"

definition digits_value :: "string \<Rightarrow> nat" where
  "digits_value ds = foldl (\<lambda>acc c. 10 * acc + digit_value c) 0 ds"

definition parseInt10 :: "string \<Rightarrow> js_num" where
  "parseInt10 s =
     (let s1 = dropWhile is_white_space s;
          neg = (case s1 of c # r \<Rightarrow> c = CHR ''-'' | [] \<Rightarrow> False);
          s2 = (case s1 of c # r \<Rightarrow> (if c = CHR ''-'' \<or> c = CHR ''+'' then r else s1) | [] \<Rightarrow> s1);
          ds = takeWhile is_digit s2
      in if ds = [] then NaN
         else if neg then Fin (- real (digits_value ds))
         else Fin (real (digits_value ds)))"

text \<open>
  \<open>URLSearchParams.set(name, value)\<close>: the first pair called \<open>name\<close> takes the
  value and the other pairs of that name are removed; with no such pair, the new pair is
  appended.
\<close>

fun searchParams_set :: "(string \<times> string) list \<Rightarrow> string \<Rightarrow> string \<Rightarrow> (string \<times> string) list" where
  "searchParams_set [] name v = [(name, v)]"
| "searchParams_set ((k, x) # ps) name v =
     (if k = name then (name, v) # filter (\<lambda>p. fst p \<noteq> name) ps
      else (k, x) # searchParams_set ps name v)"

text \<open>\<open>URLSearchParams.getAll(name)\<close>: the values of the pairs called \<open>name\<close>, in order.\<close>

definition searchParams_getAll :: "(string \<times> string) list \<Rightarrow> string \<Rightarrow> string list" where
  "searchParams_getAll ps name = map snd (filter (\<lambda>p. fst p = name) ps)"

section \<open>The widget instance\<close>

text \<open>
  An element of the shadow tree. The widget assigns to \<open>style.height\<close> a number
  followed by \<open>px\<close>; \<open>style_height\<close> is the number of the last assignment
  (whether the platform accepts the string as a length is not modelled). \<open>src\<close> is
  the URL an \<open>iframe\<close> was created with.
\<close>

record element =
  tag :: string
  elem_id :: "string option"
  classList :: "string list"
  style_height :: "js_num option"
  src :: "url option"

record custom_event =
  ev_type :: string
  ev_detail :: js_value
  ev_bubbles :: bool
  ev_composed :: bool

record message_event =
  origin :: string
  data :: js_value

text \<open>
  The state one instance owns or has registered with the platform.
  \<^item> \<open>attributes\<close>: the element's attributes.
  \<^item> \<open>nodes\<close>: every element the instance has created, addressed by its index; an
    element replaced by a later render stays here, since a closure may still hold it.
  \<^item> \<open>shadowRoot\<close>: the elements of the current shadow tree, in document order
    (empty exactly when \<open>shadowRoot.innerHTML\<close> is the empty string).
  \<^item> \<open>listening\<close>: whether \<open>boundMessageHandler\<close> is among the window's
    \<open>message\<close> listeners (the platform keeps one entry per callback).
  \<^item> \<open>dispatched\<close>: the events passed to \<open>this.dispatchEvent\<close>, oldest first.
  \<^item> \<open>load_listeners\<close>: the \<open>load\<close> listeners added by \<open>render\<close>, each as the
    frame it sits on and the overlay its closure captured.
  \<^item> \<open>timers\<close>: the pending \<open>setTimeout\<close> callbacks, oldest first, each as the
    overlay it captured. All have the same delay, so they fire in this order.
\<close>

record widget =
  attributes :: "(string \<times> string) list"
  iframeId :: string
  nodes :: "element list"
  shadowRoot :: "nat list"
  listening :: bool
  dispatched :: "custom_event list"
  load_listeners :: "(nat \<times> nat option) list"
  timers :: "nat option list"

text \<open>A call either returns or throws; both leave a state behind.\<close>

datatype completion = Normal widget | Throw js_error widget

fun widget_of :: "completion \<Rightarrow> widget" where
  "widget_of (Normal w) = w"
| "widget_of (Throw e w) = w"

text \<open>The constructor; \<open>suffix\<close> is the random part of the frame's id.\<close>

definition CalendlyWidget :: "string \<Rightarrow> widget" where
  "CalendlyWidget suffix =
     \<lparr>attributes = [], iframeId = ''calendly-iframe-'' @ suffix, nodes = [],
      shadowRoot = [], listening = False, dispatched = [], load_listeners = [],
      timers = []\<rparr>"

definition observedAttributes :: "string list" where
  "observedAttributes =
     [''url'', ''height'', ''hide-details'', ''hide-gdpr'', ''background-color'',
      ''text-color'', ''primary-color'']"

definition getAttribute :: "widget \<Rightarrow> string \<Rightarrow> string option" where
  "getAttribute w name = map_of (attributes w) name"

text \<open>Truthiness of what \<open>getAttribute\<close> returns: \<open>null\<close> and \<open>''\<close> are falsy.\<close>

fun truthy :: "string option \<Rightarrow> bool" where
  "truthy None = False"
| "truthy (Some s) = (s \<noteq> [])"

text \<open>\<open>a || d\<close> for a nullable string \<open>a\<close>.\<close>

fun or_else :: "string option \<Rightarrow> string \<Rightarrow> string" where
  "or_else None d = d"
| "or_else (Some s) d = (if s = [] then d else s)"

subsection \<open>calendlyUrl and minHeight\<close>

text \<open>
  The getter returns \<open>Inr None\<close> for the empty string, \<open>Inr (Some u)\<close> for
  \<open>u.toString()\<close>, and \<open>Inl TypeError\<close> when \<open>new URL(baseUrl)\<close> throws.
\<close>

definition calendlyUrl :: "host_env \<Rightarrow> widget \<Rightarrow> js_error + url option" where
  "calendlyUrl env w =
     (let baseUrl = or_else (getAttribute w ''url'') [] in
      if baseUrl = [] then Inr None
      else case URL_parse env baseUrl of
        None \<Rightarrow> Inl TypeError
      | Some u \<Rightarrow>
         (let q1 = (if getAttribute w ''hide-details'' = Some ''true''
                    then searchParams_set (url_query u) ''hide_event_type_details'' ''1''
                    else url_query u);
              q2 = (if getAttribute w ''hide-gdpr'' = Some ''true''
                    then searchParams_set q1 ''hide_gdpr_banner'' ''1'' else q1);
              q3 = (if truthy (getAttribute w ''background-color'')
                    then searchParams_set q2 ''background_color''
                           (the (getAttribute w ''background-color''))
                    else q2);
              q4 = (if truthy (getAttribute w ''text-color'')
                    then searchParams_set q3 ''text_color'' (the (getAttribute w ''text-color''))
                    else q3);
              q5 = (if truthy (getAttribute w ''primary-color'')
                    then searchParams_set q4 ''primary_color''
                           (the (getAttribute w ''primary-color''))
                    else q4);
              q6 = searchParams_set q5 ''embed_domain'' (location_hostname env);
              q7 = searchParams_set q6 ''embed_type'' ''Inline''
          in Inr (Some (u\<lparr>url_query := q7\<rparr>))))"

definition minHeight :: "widget \<Rightarrow> js_num" where
  "minHeight w = parseInt10 (or_else (getAttribute w ''height'') ''700'')"

subsection \<open>The shadow tree\<close>

definition getElementById :: "widget \<Rightarrow> string \<Rightarrow> nat option" where
  "getElementById w i =
     find (\<lambda>n. n < length (nodes w) \<and> elem_id (nodes w ! n) = Some i) (shadowRoot w)"

definition mk_element :: "string \<Rightarrow> string option \<Rightarrow> string list \<Rightarrow> element" where
  "mk_element t i cs = \<lparr>tag = t, elem_id = i, classList = cs, style_height = None, src = None\<rparr>"

text \<open>The two templates of \<open>render\<close>, as the elements they create (text is left out).\<close>

definition error_template :: "element list" where
  "error_template =
     [mk_element ''style'' None [],
      mk_element ''div'' None [''calendly-container''],
      mk_element ''div'' None [''error-message''],
      mk_element ''p'' None [],
      mk_element ''p'' None [],
      mk_element ''code'' None []]"

definition frame_template :: "string \<Rightarrow> url \<Rightarrow> element list" where
  "frame_template fid u =
     [mk_element ''style'' None [],
      mk_element ''div'' (Some ''container'') [''calendly-container''],
      mk_element ''div'' (Some ''loading'') [''loading-overlay''],
      mk_element ''div'' None [''spinner''],
      (mk_element ''iframe'' (Some fid) [''calendly-iframe''])\<lparr>src := Some u\<rparr>]"

text \<open>
  Assigning \<open>shadowRoot.innerHTML\<close>: the tree is replaced by freshly created elements.
\<close>

definition set_innerHTML :: "widget \<Rightarrow> element list \<Rightarrow> widget" where
  "set_innerHTML w es =
     w\<lparr>nodes := nodes w @ es,
       shadowRoot := [length (nodes w) ..< length (nodes w) + length es]\<rparr>"

definition set_style_height :: "widget \<Rightarrow> nat \<Rightarrow> js_num \<Rightarrow> widget" where
  "set_style_height w n h = w\<lparr>nodes := (nodes w)[n := (nodes w ! n)\<lparr>style_height := Some h\<rparr>]\<rparr>"

text \<open>\<open>classList.add\<close>: a token already present is not added again.\<close>

definition classList_add :: "widget \<Rightarrow> nat \<Rightarrow> string \<Rightarrow> widget" where
  "classList_add w n c =
     w\<lparr>nodes := (nodes w)[n := (nodes w ! n)\<lparr>classList :=
          (if c \<in> set (classList (nodes w ! n)) then classList (nodes w ! n)
           else classList (nodes w ! n) @ [c])\<rparr>]\<rparr>"

subsection \<open>render\<close>

text \<open>
  \<open>iframe.addEventListener\<close> on \<open>null\<close> would throw; the listener's closure keeps
  \<open>loading\<close>, whatever \<open>getElementById\<close> returned.
\<close>

definition render :: "host_env \<Rightarrow> widget \<Rightarrow> completion" where
  "render env w =
     (case calendlyUrl env w of
        Inl e \<Rightarrow> Throw e w
      | Inr None \<Rightarrow> Normal (set_innerHTML w error_template)
      | Inr (Some u) \<Rightarrow>
         (let w1 = set_innerHTML w (frame_template (iframeId w) u);
              iframe = getElementById w1 (iframeId w1);
              loading = getElementById w1 ''loading''
          in case iframe of
               None \<Rightarrow> Throw TypeError w1
             | Some f \<Rightarrow> Normal (w1\<lparr>load_listeners := load_listeners w1 @ [(f, loading)]\<rparr>)))"

text \<open>
  The \<open>load\<close> event on element \<open>n\<close>: each listener on it calls \<open>setTimeout\<close>.
\<close>

definition frame_load :: "widget \<Rightarrow> nat \<Rightarrow> widget" where
  "frame_load w n =
     w\<lparr>timers := timers w @ map snd (filter (\<lambda>p. fst p = n) (load_listeners w))\<rparr>"

text \<open>The oldest pending timer fires: \<open>loading.classList.add('hidden')\<close>.\<close>

definition timer_fire :: "widget \<Rightarrow> completion" where
  "timer_fire w =
     (case timers w of
        [] \<Rightarrow> Normal w
      | t # ts \<Rightarrow>
         (case t of
            None \<Rightarrow> Throw TypeError (w\<lparr>timers := ts\<rparr>)
          | Some l \<Rightarrow> Normal (classList_add (w\<lparr>timers := ts\<rparr>) l ''hidden'')))"

subsection \<open>updateHeight and handleMessage\<close>

definition updateHeight :: "host_env \<Rightarrow> widget \<Rightarrow> js_value \<Rightarrow> widget" where
  "updateHeight env w height =
     (if \<not> ToBoolean height then w
      else
        (let container = getElementById w ''container'';
             iframe = getElementById w (iframeId w)
         in case container of
              None \<Rightarrow> w
            | Some c \<Rightarrow>
               (case iframe of
                  None \<Rightarrow> w
                | Some f \<Rightarrow>
                   (let newHeight = Math_max (ToNumber env height) (minHeight w)
                    in set_style_height (set_style_height w c newHeight) f newHeight))))"

definition dispatchEvent :: "widget \<Rightarrow> custom_event \<Rightarrow> widget" where
  "dispatchEvent w ev = w\<lparr>dispatched := dispatched w @ [ev]\<rparr>"

definition CustomEvent :: "string \<Rightarrow> js_value \<Rightarrow> custom_event" where
  "CustomEvent name d = \<lparr>ev_type = name, ev_detail = d, ev_bubbles = True, ev_composed = True\<rparr>"

definition handleMessage :: "host_env \<Rightarrow> widget \<Rightarrow> message_event \<Rightarrow> widget" where
  "handleMessage env w event =
     (if \<not> str_includes (origin event) ''calendly.com'' then w
      else
        (let d = data event in
         if \<not> ToBoolean d \<or> \<not> ToBoolean (getProp d ''event'') then w
         else
           (let w1 = (if getProp d ''event'' = JStr ''calendly.page_height''
                      then updateHeight env w (getPropOpt (getProp d ''payload'') ''height'')
                      else w);
                w2 = (if getProp d ''event'' = JStr ''calendly.event_scheduled''
                      then dispatchEvent w1 (CustomEvent ''scheduled'' (getProp d ''payload''))
                      else w1);
                w3 = (if getProp d ''event'' = JStr ''calendly.date_and_time_selected''
                      then dispatchEvent w2 (CustomEvent ''datetime-selected'' (getProp d ''payload''))
                      else w2)
            in if getProp d ''event'' = JStr ''calendly.event_type_viewed''
               then dispatchEvent w3 (CustomEvent ''viewed'' (getProp d ''payload''))
               else w3)))"

subsection \<open>Lifecycle callbacks\<close>

definition connectedCallback :: "host_env \<Rightarrow> widget \<Rightarrow> completion" where
  "connectedCallback env w =
     (case render env w of
        Throw e w' \<Rightarrow> Throw e w'
      | Normal w' \<Rightarrow> Normal (w'\<lparr>listening := True\<rparr>))"

definition disconnectedCallback :: "widget \<Rightarrow> widget" where
  "disconnectedCallback w = w\<lparr>listening := False\<rparr>"

definition attributeChangedCallback ::
  "host_env \<Rightarrow> widget \<Rightarrow> string \<Rightarrow> string option \<Rightarrow> string option \<Rightarrow> completion" where
  "attributeChangedCallback env w name oldValue newValue =
     (if oldValue \<noteq> newValue \<and> shadowRoot w \<noteq> [] then render env w else Normal w)"

subsection \<open>What the platform does with an instance\<close>

text \<open>
  \<open>setAttribute\<close> stores the value and then runs the callback of an observed
  attribute; a \<open>message\<close> event reaches \<open>handleMessage\<close> only through the window's
  listener list.
\<close>

definition setAttribute :: "host_env \<Rightarrow> widget \<Rightarrow> string \<Rightarrow> string \<Rightarrow> completion" where
  "setAttribute env w name v =
     (let oldValue = getAttribute w name;
          w1 = w\<lparr>attributes := AList.update name v (attributes w)\<rparr>
      in if name \<in> set observedAttributes
         then attributeChangedCallback env w1 name oldValue (Some v)
         else Normal w1)"

definition deliver :: "host_env \<Rightarrow> widget \<Rightarrow> message_event \<Rightarrow> widget" where
  "deliver env w event = (if listening w then handleMessage env w event else w)"

datatype event =
    Connect
  | Disconnect
  | SetAttribute string string
  | Message message_event
  | FrameLoad nat
  | TimerFire

text \<open>
  One event of the instance's life. An exception that escapes a callback is reported by
  the platform and the instance goes on from the state the callback left.
\<close>

fun step :: "host_env \<Rightarrow> widget \<Rightarrow> event \<Rightarrow> widget" where
  "step env w Connect = widget_of (connectedCallback env w)"
| "step env w Disconnect = disconnectedCallback w"
| "step env w (SetAttribute name v) = widget_of (setAttribute env w name v)"
| "step env w (Message m) = deliver env w m"
| "step env w (FrameLoad n) = frame_load w n"
| "step env w TimerFire = widget_of (timer_fire w)"

definition run :: "host_env \<Rightarrow> widget \<Rightarrow> event list \<Rightarrow> widget" where
  "run env w evs = foldl (step env) w evs"


section \<open>Example inputs\<close>

text \<open>
  An environment for the examples: the page is served from \<open>www.example.org\<close>, and
  the platform functions are tables of their results on the strings the examples use.
  \<open>demo_URL_parse\<close> accepts two absolute URLs and rejects every other string; the
  only other string the examples pass to it has no scheme.
\<close>

definition demo_url :: url where
  "demo_url =
     \<lparr>url_scheme = ''https'', url_username = [], url_password = [],
      url_host = ''calendly.com'', url_port = None, url_path = ''/demo'',
      url_query = [], url_fragment = None\<rparr>"

definition demo_URL_parse :: "string \<Rightarrow> url option" where
  "demo_URL_parse s =
     (if s = ''https://calendly.com/demo'' then Some demo_url
      else if s = ''https://calendly.com/demo?month=2024-06&primary_color=00a2ff#top''
      then Some (demo_url\<lparr>url_query := [(''month'', ''2024-06''), (''primary_color'', ''00a2ff'')],
                          url_fragment := Some ''top''\<rparr>)
      else None)"

definition demo_env :: host_env where
  "demo_env =
     \<lparr>location_hostname = ''www.example.org'', URL_parse = demo_URL_parse,
      StringToNumber = (\<lambda>s. if s = ''900'' then Fin 900 else NaN)\<rparr>"

text \<open>A freshly constructed instance with the given attributes.\<close>

definition demo_widget :: "(string \<times> string) list \<Rightarrow> widget" where
  "demo_widget attrs = (CalendlyWidget ''k3j9x0q2a'')\<lparr>attributes := attrs\<rparr>"

definition page_height_message :: "string \<Rightarrow> js_num \<Rightarrow> message_event" where
  "page_height_message org h =
     \<lparr>origin = org,
      data = JObj [(''event'', JStr ''calendly.page_height''),
                   (''payload'', JObj [(''height'', JNum h)])]\<rparr>"

definition demo_attributes :: "(string \<times> string) list" where
  "demo_attributes =
     [(''url'', ''https://calendly.com/demo?month=2024-06&primary_color=00a2ff#top''),
      (''background-color'', ''000000''),
      (''text-color'', ''''),
      (''hide-gdpr'', ''true'')]"

text \<open>The instance after it was connected with a valid \<open>url\<close> and no other attribute.\<close>

definition rendered_demo :: widget where
  "rendered_demo = run demo_env (demo_widget [(''url'', ''https://calendly.com/demo'')]) [Connect]"

definition scheduled_message :: message_event where
  "scheduled_message =
     \<lparr>origin = ''https://calendly.com'',
      data = JObj [(''event'', JStr ''calendly.event_scheduled''),
                   (''payload'', JObj [(''foo'', JNum (Fin 1))])]\<rparr>"

text \<open>The frame has loaded, then the instance was disconnected.\<close>

definition detached_demo :: widget where
  "detached_demo = run demo_env rendered_demo [FrameLoad 4, Disconnect]"

text \<open>The frame has loaded, then the \<open>url\<close> attribute was changed.\<close>

definition reconfigured_demo :: widget where
  "reconfigured_demo =
     run demo_env rendered_demo
       [FrameLoad 4,
        SetAttribute ''url'' ''https://calendly.com/demo?month=2024-06&primary_color=00a2ff#top'']"

lemmas demo_defs = demo_attributes_def demo_widget_def CalendlyWidget_def demo_env_def
  demo_URL_parse_def demo_url_def getAttribute_def

section \<open>The resolved request\<close>

lemma getAll_set_same: "searchParams_getAll (searchParams_set ps n v) n = [v]"
  by (induction ps n v rule: searchParams_set.induct)
     (auto simp: searchParams_getAll_def filter_empty_conv)

lemma filter_set_other:
  "\<not> P n \<Longrightarrow> filter (\<lambda>p. P (fst p)) (searchParams_set ps n v) = filter (\<lambda>p. P (fst p)) ps"
  by (induction ps n v rule: searchParams_set.induct) (auto intro: filter_cong)

lemma getAll_set_other:
  "m \<noteq> n \<Longrightarrow> searchParams_getAll (searchParams_set ps n v) m = searchParams_getAll ps m"
  unfolding searchParams_getAll_def
  using filter_set_other [of "\<lambda>k. k = m" n ps v] by simp

lemma getAll_if_set_same:
  "searchParams_getAll (if c then searchParams_set ps n v else ps) n =
     (if c then [v] else searchParams_getAll ps n)"
  by (simp add: getAll_set_same)

lemma getAll_if_set_other:
  "m \<noteq> n \<Longrightarrow> searchParams_getAll (if c then searchParams_set ps n v else ps) m =
     searchParams_getAll ps m"
  by (simp add: getAll_set_other)




text \<open>
  Claim C1, as amended. For a configuration whose \<open>url\<close> attribute is non-empty and
  accepted by the \<open>URL\<close> constructor, the resolved request has exactly one
  \<open>embed_domain\<close> parameter, the current host name, and exactly one \<open>embed_type\<close>
  parameter, \<open>Inline\<close>. Each of \<open>background_color\<close>, \<open>text_color\<close> and
  \<open>primary_color\<close> occurs once with the attribute's value, unchanged, when the
  attribute is present and non-empty; when the attribute is absent or empty the
  parameter is exactly as in the base URL (so absent when the base URL has none).
  \<open>hide_event_type_details\<close> and \<open>hide_gdpr_banner\<close> occur once with value
  \<open>1\<close> when \<open>hide-details\<close> / \<open>hide-gdpr\<close> equal \<open>true\<close>, and are as in the base
  URL otherwise.
\<close>

theorem calendlyUrl_query_parameters:
  assumes "getAttribute w ''url'' = Some b" and "b \<noteq> []" and "URL_parse env b = Some u0"
  shows "\<exists>u. calendlyUrl env w = Inr (Some u)
     \<and> searchParams_getAll (url_query u) ''embed_domain'' = [location_hostname env]
     \<and> searchParams_getAll (url_query u) ''embed_type'' = [''Inline'']
     \<and> searchParams_getAll (url_query u) ''background_color'' =
         (if truthy (getAttribute w ''background-color'')
          then [the (getAttribute w ''background-color'')]
          else searchParams_getAll (url_query u0) ''background_color'')
     \<and> searchParams_getAll (url_query u) ''text_color'' =
         (if truthy (getAttribute w ''text-color'')
          then [the (getAttribute w ''text-color'')]
          else searchParams_getAll (url_query u0) ''text_color'')
     \<and> searchParams_getAll (url_query u) ''primary_color'' =
         (if truthy (getAttribute w ''primary-color'')
          then [the (getAttribute w ''primary-color'')]
          else searchParams_getAll (url_query u0) ''primary_color'')
     \<and> searchParams_getAll (url_query u) ''hide_event_type_details'' =
         (if getAttribute w ''hide-details'' = Some ''true'' then [''1'']
          else searchParams_getAll (url_query u0) ''hide_event_type_details'')
     \<and> searchParams_getAll (url_query u) ''hide_gdpr_banner'' =
         (if getAttribute w ''hide-gdpr'' = Some ''true'' then [''1'']
          else searchParams_getAll (url_query u0) ''hide_gdpr_banner'')"
  using assms unfolding calendlyUrl_def Let_def
  by (simp add: getAll_set_same getAll_set_other getAll_if_set_same getAll_if_set_other
        del: if_cancel cong: if_cong)

theorem calendlyUrl_query_parameters_witness:
  "\<exists>u. calendlyUrl demo_env (demo_widget demo_attributes) = Inr (Some u)
     \<and> searchParams_getAll (url_query u) ''embed_domain'' = [''www.example.org'']
     \<and> searchParams_getAll (url_query u) ''embed_type'' = [''Inline'']
     \<and> searchParams_getAll (url_query u) ''background_color'' = [''000000'']
     \<and> searchParams_getAll (url_query u) ''text_color'' = []
     \<and> searchParams_getAll (url_query u) ''primary_color'' = [''00a2ff'']
     \<and> searchParams_getAll (url_query u) ''hide_event_type_details'' = []
     \<and> searchParams_getAll (url_query u) ''hide_gdpr_banner'' = [''1'']"
  using calendlyUrl_query_parameters
    [of "demo_widget demo_attributes"
        "''https://calendly.com/demo?month=2024-06&primary_color=00a2ff#top''" demo_env
        "demo_url\<lparr>url_query := [(''month'', ''2024-06''), (''primary_color'', ''00a2ff'')],
                  url_fragment := Some ''top''\<rparr>"]
  by (simp add: demo_defs searchParams_getAll_def)

text \<open>
  Claim C1 as stated fails in both directions of its "if and only if": with
  \<open>background-color=""\<close> supplied and no \<open>primary-color\<close> attribute, on a base URL
  that already carries \<open>primary_color\<close>, the resolved request has no
  \<open>background_color\<close> and has \<open>primary_color\<close>.
\<close>

theorem calendlyUrl_supplied_iff_counterexample:
  "calendlyUrl demo_env
     (demo_widget
        [(''url'', ''https://calendly.com/demo?month=2024-06&primary_color=00a2ff#top''),
         (''background-color'', '''')])
     = Inr (Some (demo_url\<lparr>url_query :=
          [(''month'', ''2024-06''), (''primary_color'', ''00a2ff''),
           (''embed_domain'', ''www.example.org''), (''embed_type'', ''Inline'')],
          url_fragment := Some ''top''\<rparr>))
   \<and> getAttribute (demo_widget
        [(''url'', ''https://calendly.com/demo?month=2024-06&primary_color=00a2ff#top''),
         (''background-color'', '''')]) ''background-color'' = Some ''''
   \<and> getAttribute (demo_widget
        [(''url'', ''https://calendly.com/demo?month=2024-06&primary_color=00a2ff#top''),
         (''background-color'', '''')]) ''primary-color'' = None"
  by (simp add: calendlyUrl_def demo_defs)



section \<open>The rendered structure\<close>

lemma minHeight_default: "getAttribute w ''height'' = None \<Longrightarrow> minHeight w = Fin 700"
  by (simp add: minHeight_def parseInt10_def is_white_space_def is_digit_def digits_value_def
      digit_value_def)

lemma rendered_demo_eq:
  "rendered_demo =
    \<lparr>attributes = [(''url'', ''https://calendly.com/demo'')],
     iframeId = ''calendly-iframe-k3j9x0q2a'',
     nodes =
      [mk_element ''style'' None [],
       mk_element ''div'' (Some ''container'') [''calendly-container''],
       mk_element ''div'' (Some ''loading'') [''loading-overlay''],
       mk_element ''div'' None [''spinner''],
       (mk_element ''iframe'' (Some ''calendly-iframe-k3j9x0q2a'') [''calendly-iframe''])
         \<lparr>src := Some (demo_url\<lparr>url_query :=
            [(''embed_domain'', ''www.example.org''), (''embed_type'', ''Inline'')]\<rparr>)\<rparr>],
     shadowRoot = [0, 1, 2, 3, 4], listening = True, dispatched = [],
     load_listeners = [(4, Some 2)], timers = []\<rparr>"
  by (simp add: rendered_demo_def run_def connectedCallback_def render_def calendlyUrl_def
      demo_defs set_innerHTML_def frame_template_def getElementById_def upt_rec
      nth_append mk_element_def)

lemma rendered_demo_container: "getElementById rendered_demo ''container'' = Some 1"
  by (simp add: rendered_demo_eq getElementById_def mk_element_def)

lemma rendered_demo_iframe: "getElementById rendered_demo (iframeId rendered_demo) = Some 4"
  by (simp add: rendered_demo_eq getElementById_def mk_element_def)

lemma rendered_demo_minHeight: "minHeight rendered_demo = Fin 700"
  by (rule minHeight_default) (simp add: rendered_demo_eq getAttribute_def)

lemma getElementById_SomeD:
  "getElementById w i = Some n \<Longrightarrow>
     n < length (nodes w) \<and> elem_id (nodes w ! n) = Some i \<and> n \<in> set (shadowRoot w)"
  unfolding getElementById_def by (auto simp: find_Some_iff)

lemma getElementById_set_innerHTML_None:
  assumes "\<And>e. e \<in> set es \<Longrightarrow> elem_id e \<noteq> Some i"
  shows "getElementById (set_innerHTML w es) i = None"
proof -
  have "elem_id ((nodes w @ es) ! n) \<noteq> Some i"
    if "length (nodes w) \<le> n" and "n < length (nodes w) + length es" for n
  proof -
    from that have "(nodes w @ es) ! n = es ! (n - length (nodes w))"
      by (simp add: nth_append)
    moreover from that have "es ! (n - length (nodes w)) \<in> set es"
      by (intro nth_mem) arith
    ultimately show ?thesis using assms by simp
  qed
  then show ?thesis
    by (auto simp: getElementById_def set_innerHTML_def find_None_iff)
qed

lemma error_template_no_id: "e \<in> set error_template \<Longrightarrow> elem_id e \<noteq> Some i"
  by (auto simp: error_template_def mk_element_def)

section \<open>Height updates\<close>

lemma ToBoolean_False_iff:
  "\<not> ToBoolean h \<longleftrightarrow>
     h = JUndefined \<or> h = JNull \<or> h = JBool False \<or> h = JNum NaN \<or> h = JNum (Fin 0) \<or> h = JStr []"
  by (cases h) auto

lemma updateHeight_no_nodes:
  "getElementById w ''container'' = None \<or> getElementById w (iframeId w) = None \<Longrightarrow>
     updateHeight env w h = w"
  by (auto simp: updateHeight_def Let_def split: option.splits)

text \<open>
  Claim C2. When the rendered structure has the container and the frame, a call with a
  positive finite number \<open>r\<close> writes \<open>Math.max(r, minHeight)\<close> as the height of both;
  for a finite \<open>minHeight\<close> that is the larger of the two numbers. With
  \<open>minHeight = 700\<close>, a call with 500 gives 700 and a call with 900 gives 900 (the
  witness below).
\<close>

theorem updateHeight_clamps:
  assumes "getElementById w ''container'' = Some c"
    and "getElementById w (iframeId w) = Some f"
    and "0 < r"
  shows "style_height (nodes (updateHeight env w (JNum (Fin r))) ! c)
           = Some (Math_max (Fin r) (minHeight w))
       \<and> style_height (nodes (updateHeight env w (JNum (Fin r))) ! f)
           = Some (Math_max (Fin r) (minHeight w))
       \<and> (\<forall>m. minHeight w = Fin m \<longrightarrow> Math_max (Fin r) (minHeight w) = Fin (max r m))"
proof -
  from assms(1) have c: "c < length (nodes w)" by (simp add: getElementById_SomeD)
  from assms(2) have f: "f < length (nodes w)" by (simp add: getElementById_SomeD)
  have u: "updateHeight env w (JNum (Fin r)) =
      set_style_height (set_style_height w c (Math_max (Fin r) (minHeight w))) f
        (Math_max (Fin r) (minHeight w))"
    using assms by (simp add: updateHeight_def Let_def)
  show ?thesis
    unfolding u using c f
    by (cases "c = f") (simp_all add: set_style_height_def)
qed

theorem updateHeight_clamps_witness:
  "style_height (nodes (updateHeight demo_env rendered_demo (JNum (Fin 500))) ! 1) = Some (Fin 700)
   \<and> style_height (nodes (updateHeight demo_env rendered_demo (JNum (Fin 500))) ! 4) = Some (Fin 700)
   \<and> style_height (nodes (updateHeight demo_env rendered_demo (JNum (Fin 900))) ! 1) = Some (Fin 900)
   \<and> style_height (nodes (updateHeight demo_env rendered_demo (JNum (Fin 900))) ! 4) = Some (Fin 900)"
  using updateHeight_clamps [of rendered_demo 1 4 500 demo_env]
        updateHeight_clamps [of rendered_demo 1 4 900 demo_env]
  by (simp add: rendered_demo_container rendered_demo_iframe rendered_demo_minHeight)

text \<open>
  Claim C6, as amended. \<open>updateHeight\<close> writes nothing when the candidate is falsy:
  \<open>undefined\<close> (absent), \<open>null\<close>, \<open>false\<close>, \<open>NaN\<close>, \<open>0\<close> or the empty string.
  These are all the falsy values (\<open>ToBoolean_False_iff\<close>).
\<close>

theorem updateHeight_falsy_noop:
  assumes "h = JUndefined \<or> h = JNull \<or> h = JBool False \<or> h = JNum NaN \<or> h = JNum (Fin 0)
           \<or> h = JStr []"
  shows "updateHeight env w h = w"
  using assms by (auto simp: updateHeight_def)

theorem updateHeight_falsy_noop_witness:
  "updateHeight demo_env rendered_demo JUndefined = rendered_demo
   \<and> updateHeight demo_env rendered_demo (JNum (Fin 0)) = rendered_demo
   \<and> updateHeight demo_env rendered_demo (JNum NaN) = rendered_demo"
  using updateHeight_falsy_noop [of JUndefined demo_env rendered_demo]
        updateHeight_falsy_noop [of "JNum (Fin 0)" demo_env rendered_demo]
        updateHeight_falsy_noop [of "JNum NaN" demo_env rendered_demo]
  by simp

text \<open>
  Claim C6 as stated fails: a negative candidate and an infinite one are written. On the
  rendered example (no height set yet, \<open>minHeight = 700\<close>), \<open>updateHeight(-5)\<close>
  assigns \<open>700px\<close> to the container and the frame, and \<open>updateHeight(Infinity)\<close>
  assigns \<open>Infinitypx\<close>.
\<close>

theorem updateHeight_negative_counterexample:
  "style_height (nodes rendered_demo ! 1) = None
   \<and> style_height (nodes (updateHeight demo_env rendered_demo (JNum (Fin (- 5)))) ! 1) = Some (Fin 700)
   \<and> style_height (nodes (updateHeight demo_env rendered_demo (JNum (Fin (- 5)))) ! 4) = Some (Fin 700)
   \<and> style_height (nodes (updateHeight demo_env rendered_demo (JNum PosInf)) ! 1) = Some PosInf"
  by (simp add: updateHeight_def rendered_demo_container rendered_demo_iframe
      rendered_demo_minHeight set_style_height_def Let_def)
     (simp add: rendered_demo_eq mk_element_def)

text \<open>
  Claim C10. \<open>updateHeight\<close> returns the state unchanged, for every candidate, when
  the shadow tree has no element with id \<open>container\<close> or none with the frame's id.
  That is the case after \<open>render\<close> has produced the error message (no \<open>url\<close>), and
  before any render (empty shadow tree). The function has no failing branch.
\<close>

theorem updateHeight_guarded:
  "(getElementById w ''container'' = None \<or> getElementById w (iframeId w) = None
      \<longrightarrow> updateHeight env w h = w)
   \<and> (calendlyUrl env w = Inr None
      \<longrightarrow> render env w = Normal (set_innerHTML w error_template)
          \<and> getElementById (set_innerHTML w error_template) ''container'' = None
          \<and> updateHeight env (set_innerHTML w error_template) h = set_innerHTML w error_template)
   \<and> (shadowRoot w = [] \<longrightarrow> updateHeight env w h = w)"
proof (intro conjI impI)
  assume "getElementById w ''container'' = None \<or> getElementById w (iframeId w) = None"
  then show "updateHeight env w h = w" by (rule updateHeight_no_nodes)
next
  assume "calendlyUrl env w = Inr None"
  then show "render env w = Normal (set_innerHTML w error_template)"
    by (simp add: render_def)
next
  show none: "getElementById (set_innerHTML w error_template) ''container'' = None"
    by (rule getElementById_set_innerHTML_None) (rule error_template_no_id)
  then show "updateHeight env (set_innerHTML w error_template) h = set_innerHTML w error_template"
    by (simp add: updateHeight_no_nodes)
next
  assume "shadowRoot w = []"
  then have "getElementById w ''container'' = None" by (simp add: getElementById_def)
  then show "updateHeight env w h = w" by (simp add: updateHeight_no_nodes)
qed

theorem updateHeight_guarded_witness:
  "calendlyUrl demo_env (demo_widget [(''height'', ''800'')]) = Inr None
   \<and> render demo_env (demo_widget [(''height'', ''800'')])
       = Normal (set_innerHTML (demo_widget [(''height'', ''800'')]) error_template)
   \<and> updateHeight demo_env (set_innerHTML (demo_widget [(''height'', ''800'')]) error_template)
        (JNum (Fin 1200))
       = set_innerHTML (demo_widget [(''height'', ''800'')]) error_template
   \<and> updateHeight demo_env (demo_widget [(''height'', ''800'')]) (JNum (Fin 1200))
       = demo_widget [(''height'', ''800'')]"
proof -
  have u: "calendlyUrl demo_env (demo_widget [(''height'', ''800'')]) = Inr None"
    by (simp add: calendlyUrl_def demo_defs)
  have s: "shadowRoot (demo_widget [(''height'', ''800'')]) = []"
    by (simp add: demo_defs)
  show ?thesis
    using u s updateHeight_guarded [of "demo_widget [(''height'', ''800'')]" demo_env "JNum (Fin 1200)"]
    by simp
qed

section \<open>Inbound messages\<close>

lemma handleMessage_foreign_origin:
  "\<not> str_includes (origin ev) ''calendly.com'' \<Longrightarrow> handleMessage env w ev = w"
  by (simp add: handleMessage_def)

lemma handleMessage_unrecognised:
  assumes "getProp (data ev) ''event'' \<noteq> JStr ''calendly.page_height''"
    and "getProp (data ev) ''event'' \<noteq> JStr ''calendly.event_scheduled''"
    and "getProp (data ev) ''event'' \<noteq> JStr ''calendly.date_and_time_selected''"
    and "getProp (data ev) ''event'' \<noteq> JStr ''calendly.event_type_viewed''"
  shows "handleMessage env w ev = w"
  using assms by (simp add: handleMessage_def Let_def)

lemma untrusted_example_dropped:
  "deliver demo_env rendered_demo (page_height_message ''https://not-trusted.example'' (Fin 1200))
     = rendered_demo"
  by (simp add: deliver_def handleMessage_def page_height_message_def)

text \<open>
  Claim C3. The handler drops a message whose origin does not contain the text
  \<open>calendly.com\<close> (\<open>handleMessage_foreign_origin\<close>, and
  \<open>untrusted_example_dropped\<close> for the origin \<open>https://not-trusted.example\<close>)
  and one whose event name is not one of the four it knows
  (\<open>handleMessage_unrecognised\<close>). But the test is a
  substring test: the origin \<open>https://calendly.com.evil.example\<close>, which is not the
  embedding service's domain, passes it, and its \<open>page_height\<close> report of 1200 is
  written as the height of the container and of the frame.
\<close>

theorem handleMessage_spoofed_origin:
  "style_height (nodes rendered_demo ! 1) = None
   \<and> style_height (nodes (deliver demo_env rendered_demo
        (page_height_message ''https://calendly.com.evil.example'' (Fin 1200))) ! 1) = Some (Fin 1200)
   \<and> style_height (nodes (deliver demo_env rendered_demo
        (page_height_message ''https://calendly.com.evil.example'' (Fin 1200))) ! 4) = Some (Fin 1200)"
  by (simp add: deliver_def handleMessage_def page_height_message_def updateHeight_def
      rendered_demo_container rendered_demo_iframe rendered_demo_minHeight set_style_height_def
      Let_def)
     (simp add: rendered_demo_eq mk_element_def)



lemma run_Cons: "run env w (e # es) = run env (step env w e) es"
  by (simp add: run_def)

text \<open>
  Claim C8. Once the instance is disconnected its handler is no longer among the
  window's listeners: any sequence of messages, whatever their origin, leaves the state
  of the instance as the disconnection left it (no height update, no outbound event).
\<close>

theorem detached_ignores_messages:
  "run env (step env w Disconnect) (map Message ms) = step env w Disconnect
   \<and> \<not> listening (step env w Disconnect)"
proof (induction ms)
  case Nil
  show ?case by (simp add: run_def disconnectedCallback_def)
next
  case (Cons m ms)
  have "step env (step env w Disconnect) (Message m) = step env w Disconnect"
    by (simp add: deliver_def disconnectedCallback_def)
  with Cons show ?case by (simp add: run_Cons)
qed

theorem detached_ignores_messages_witness:
  "run demo_env (step demo_env rendered_demo Disconnect)
     (map Message [page_height_message ''https://calendly.com'' (Fin 1200), scheduled_message])
   = rendered_demo\<lparr>listening := False\<rparr>"
  using detached_ignores_messages [of demo_env rendered_demo
     "[page_height_message ''https://calendly.com'' (Fin 1200), scheduled_message]"]
  by (simp add: disconnectedCallback_def)

section \<open>Configuration errors\<close>

lemma missing_url_renders_message:
  assumes "\<not> truthy (getAttribute w ''url'')"
  shows "calendlyUrl env w = Inr None \<and> render env w = Normal (set_innerHTML w error_template)"
  using assms by (cases "getAttribute w ''url''") (simp_all add: calendlyUrl_def render_def)

text \<open>
  Claim C4. An absent or empty \<open>url\<close> is rendered as the error message
  (\<open>missing_url_renders_message\<close>). A non-empty \<open>url\<close> that the \<open>URL\<close>
  constructor rejects is not: the \<open>TypeError\<close> leaves the getter, \<open>render\<close> and
  \<open>connectedCallback\<close>, nothing is rendered and the state is as before the call (so the
  message listener is not registered either).
\<close>

theorem invalid_url_throws:
  assumes "getAttribute w ''url'' = Some b" and "b \<noteq> []" and "URL_parse env b = None"
  shows "calendlyUrl env w = Inl TypeError
       \<and> render env w = Throw TypeError w
       \<and> connectedCallback env w = Throw TypeError w"
  using assms by (simp add: calendlyUrl_def render_def connectedCallback_def)

theorem invalid_url_throws_witness:
  "connectedCallback demo_env (demo_widget [(''url'', ''calendly.com/demo'')])
     = Throw TypeError (demo_widget [(''url'', ''calendly.com/demo'')])
   \<and> shadowRoot (step demo_env (demo_widget [(''url'', ''calendly.com/demo'')]) Connect) = []
   \<and> \<not> listening (step demo_env (demo_widget [(''url'', ''calendly.com/demo'')]) Connect)"
  using invalid_url_throws [of "demo_widget [(''url'', ''calendly.com/demo'')]"
      "''calendly.com/demo''" demo_env]
  by (simp add: demo_defs)

section \<open>The settle timer\<close>

lemma detached_demo_eq:
  "detached_demo = rendered_demo\<lparr>listening := False, timers := [Some 2]\<rparr>"
  by (simp add: detached_demo_def run_def frame_load_def disconnectedCallback_def rendered_demo_eq)

lemma reconfigured_demo_eq:
  "reconfigured_demo =
    \<lparr>attributes =
       [(''url'', ''https://calendly.com/demo?month=2024-06&primary_color=00a2ff#top'')],
     iframeId = ''calendly-iframe-k3j9x0q2a'',
     nodes = nodes rendered_demo @
       frame_template ''calendly-iframe-k3j9x0q2a''
         (demo_url\<lparr>url_query := [(''month'', ''2024-06''), (''primary_color'', ''00a2ff''),
             (''embed_domain'', ''www.example.org''), (''embed_type'', ''Inline'')],
            url_fragment := Some ''top''\<rparr>),
     shadowRoot = [5, 6, 7, 8, 9], listening = True, dispatched = [],
     load_listeners = [(4, Some 2), (9, Some 7)], timers = [Some 2]\<rparr>"
  by (simp add: reconfigured_demo_def run_def frame_load_def rendered_demo_eq setAttribute_def
      observedAttributes_def attributeChangedCallback_def getAttribute_def render_def
      calendlyUrl_def demo_env_def demo_URL_parse_def demo_url_def set_innerHTML_def
      frame_template_def getElementById_def upt_rec nth_append mk_element_def)

lemma render_timers: "timers (widget_of (render env w)) = timers w"
  by (simp add: render_def set_innerHTML_def Let_def split: sum.splits option.splits)

lemma render_shadowRoot_fresh:
  assumes "render env w = Normal w'" and "l < length (nodes w)"
  shows "l \<notin> set (shadowRoot w')"
  using assms
  by (auto simp: render_def set_innerHTML_def Let_def split: sum.splits option.splits)

lemma timer_fire_Some:
  assumes "timers w = Some l # ts"
  shows "timer_fire w = Normal (w\<lparr>timers := ts,
           nodes := (nodes w)[l := (nodes w ! l)\<lparr>classList :=
             (if ''hidden'' \<in> set (classList (nodes w ! l)) then classList (nodes w ! l)
              else classList (nodes w ! l) @ [''hidden''])\<rparr>]\<rparr>)"
  using assms by (simp add: timer_fire_def classList_add_def)

text \<open>
  Claim C5, as amended. The settle-delay action is never cancelled: neither
  \<open>disconnectedCallback\<close> nor \<open>render\<close> removes a pending timer, and when the timer
  fires it adds the class \<open>hidden\<close> to the overlay its render created and changes
  nothing else. A later render replaces the tree by new elements, so after a
  reconfiguration the overlay of a pending timer is no longer in the rendered structure,
  and the firing leaves every element of the current structure as it was.
\<close>

theorem settle_timer_not_cancelled:
  "timers (disconnectedCallback w) = timers w
   \<and> timers (widget_of (render env w)) = timers w
   \<and> (render env w = Normal (widget_of (render env w)) \<and> l < length (nodes w)
        \<longrightarrow> l \<notin> set (shadowRoot (widget_of (render env w))))
   \<and> (timers w = Some l # ts \<longrightarrow>
        timer_fire w = Normal (w\<lparr>timers := ts,
           nodes := (nodes w)[l := (nodes w ! l)\<lparr>classList :=
             (if ''hidden'' \<in> set (classList (nodes w ! l)) then classList (nodes w ! l)
              else classList (nodes w ! l) @ [''hidden''])\<rparr>]\<rparr>))
   \<and> (timers w = Some l # ts \<and> l \<notin> set (shadowRoot w) \<longrightarrow>
        map (\<lambda>n. nodes (widget_of (timer_fire w)) ! n) (shadowRoot w)
          = map (\<lambda>n. nodes w ! n) (shadowRoot w))"
proof (intro conjI impI)
  show "timers (disconnectedCallback w) = timers w" by (simp add: disconnectedCallback_def)
  show "timers (widget_of (render env w)) = timers w" by (rule render_timers)
next
  assume "render env w = Normal (widget_of (render env w)) \<and> l < length (nodes w)"
  then show "l \<notin> set (shadowRoot (widget_of (render env w)))"
    using render_shadowRoot_fresh by blast
next
  assume "timers w = Some l # ts"
  then show "timer_fire w = Normal (w\<lparr>timers := ts,
           nodes := (nodes w)[l := (nodes w ! l)\<lparr>classList :=
             (if ''hidden'' \<in> set (classList (nodes w ! l)) then classList (nodes w ! l)
              else classList (nodes w ! l) @ [''hidden''])\<rparr>]\<rparr>)"
    by (rule timer_fire_Some)
next
  assume a: "timers w = Some l # ts \<and> l \<notin> set (shadowRoot w)"
  then have "n \<in> set (shadowRoot w) \<Longrightarrow> l \<noteq> n" for n by auto
  with a show "map (\<lambda>n. nodes (widget_of (timer_fire w)) ! n) (shadowRoot w)
          = map (\<lambda>n. nodes w ! n) (shadowRoot w)"
    by (auto simp: timer_fire_Some)
qed

theorem settle_timer_not_cancelled_witness:
  "timers (disconnectedCallback (frame_load rendered_demo 4)) = [Some 2]
   \<and> timers (widget_of (render demo_env (frame_load rendered_demo 4))) = [Some 2]
   \<and> timer_fire detached_demo = Normal (detached_demo\<lparr>timers := [],
        nodes := (nodes detached_demo)[2 := (nodes detached_demo ! 2)\<lparr>classList :=
          [''loading-overlay'', ''hidden'']\<rparr>]\<rparr>)
   \<and> timers reconfigured_demo = [Some 2]
   \<and> map (\<lambda>n. nodes (widget_of (timer_fire reconfigured_demo)) ! n) [5, 6, 7, 8, 9]
        = map (\<lambda>n. nodes reconfigured_demo ! n) [5, 6, 7, 8, 9]"
  using settle_timer_not_cancelled [of "frame_load rendered_demo 4" demo_env 2 "[]"]
        settle_timer_not_cancelled [of detached_demo demo_env 2 "[]"]
        settle_timer_not_cancelled [of reconfigured_demo demo_env 2 "[]"]
  apply (simp only: detached_demo_eq reconfigured_demo_eq)
  apply (simp add: frame_load_def rendered_demo_eq mk_element_def)
  done

text \<open>
  Claim C5 as stated fails. After the frame has loaded and the instance was disconnected,
  the pending timer still fires and hides the overlay of the detached instance; after the
  frame has loaded and the \<open>url\<close> was changed, it fires on the overlay of the replaced
  structure (element 2, no longer in the shadow tree).
\<close>

theorem settle_timer_fires_counterexample:
  "\<not> listening detached_demo
   \<and> timers detached_demo = [Some 2]
   \<and> classList (nodes detached_demo ! 2) = [''loading-overlay'']
   \<and> classList (nodes (step demo_env detached_demo TimerFire) ! 2)
        = [''loading-overlay'', ''hidden'']
   \<and> timers reconfigured_demo = [Some 2]
   \<and> 2 \<notin> set (shadowRoot reconfigured_demo)
   \<and> classList (nodes reconfigured_demo ! 2) = [''loading-overlay'']
   \<and> classList (nodes (step demo_env reconfigured_demo TimerFire) ! 2)
        = [''loading-overlay'', ''hidden'']"
  by (simp add: detached_demo_eq reconfigured_demo_eq timer_fire_def classList_add_def
      rendered_demo_eq mk_element_def)

end
